theory Spec2Isabelle
  imports Main
begin

section \<open>Python strings\<close>

text \<open>
  A Python \<^verbatim>\<open>str\<close> is a sequence of Unicode code points; it is modelled as a list of
  natural numbers, one per code point. \<open>py\<close> turns an ASCII literal into such a list.
\<close>

type_synonym pystr = "nat list"

definition py :: "string \<Rightarrow> pystr" where
  "py s = map of_char s"

abbreviation QUOTE :: nat where
  "QUOTE \<equiv> 34"

abbreviation SPACE :: nat where
  "SPACE \<equiv> 32"

text \<open>
  \<^verbatim>\<open>str.isspace\<close> on one code point, which is what \<^verbatim>\<open>str.strip()\<close> removes: the
  ASCII controls 9-13 and 28-31, the space, U+0085, U+00A0, U+1680, U+2000-U+200A, U+2028,
  U+2029, U+202F, U+205F and U+3000.
\<close>

definition isspace :: "nat \<Rightarrow> bool" where
  "isspace c \<longleftrightarrow>
     (9 \<le> c \<and> c \<le> 13) \<or> (28 \<le> c \<and> c \<le> 32) \<or> c = 133 \<or> c = 160 \<or> c = 5760 \<or>
     (8192 \<le> c \<and> c \<le> 8202) \<or> c = 8232 \<or> c = 8233 \<or> c = 8239 \<or> c = 8287 \<or> c = 12288"

text \<open>\<^verbatim>\<open>s.strip()\<close>: leading and trailing whitespace removed.\<close>

definition strip :: "pystr \<Rightarrow> pystr" where
  "strip s = rev (dropWhile isspace (rev (dropWhile isspace s)))"

text \<open>\<^verbatim>\<open>s.startswith(p)\<close>.\<close>

definition startswith :: "pystr \<Rightarrow> pystr \<Rightarrow> bool" where
  "startswith s p \<longleftrightarrow> take (length p) s = p"

text \<open>
  \<^verbatim>\<open>s.find(c)\<close> for a one-character needle: the lowest index of \<open>c\<close>, or \<open>-1\<close> when
  \<open>c\<close> does not occur.
\<close>

fun py_find :: "nat \<Rightarrow> pystr \<Rightarrow> int" where
  "py_find c [] = - 1"
| "py_find c (x # xs) =
     (if x = c then 0 else (let r = py_find c xs in if r < 0 then - 1 else r + 1))"

text \<open>
  Slicing \<^verbatim>\<open>s[lo:hi]\<close>, either bound optional. A negative bound counts from the end,
  and every bound is clamped to the length, as Python does.
\<close>

definition clamp_index :: "int \<Rightarrow> nat \<Rightarrow> nat" where
  "clamp_index i n = (if i < 0 then nat (max 0 (int n + i)) else min (nat i) n)"

definition slice :: "int option \<Rightarrow> int option \<Rightarrow> pystr \<Rightarrow> pystr" where
  "slice lo hi s =
     (let n = length s;
          a = (case lo of None \<Rightarrow> 0 | Some i \<Rightarrow> clamp_index i n);
          b = (case hi of None \<Rightarrow> n | Some j \<Rightarrow> clamp_index j n)
      in take (b - a) (drop a s))"

section \<open>The tokenizer\<close>

text \<open>
  \<^verbatim>\<open>
  def next_arg(arg_string: str) -> Tuple[str, Optional[str]]:
      if arg_string.startswith("\""):
          end_quote = arg_string[1:].find("\"") + 1
          if end_quote > 0:
              return arg_string[1:end_quote], arg_string[end_quote + 1:].strip()
          else:
              return arg_string[1:], None

      next_space = arg_string.find(" ")
      if next_space >= 0:
          return arg_string[:next_space].strip(), arg_string[next_space:].strip()
      else:
          return arg_string.strip(), None
  \<close>
\<close>

definition next_arg :: "pystr \<Rightarrow> pystr \<times> pystr option" where
  "next_arg arg_string =
     (if startswith arg_string [QUOTE] then
        (let end_quote = py_find QUOTE (slice (Some 1) None arg_string) + 1 in
         if end_quote > 0 then
           (slice (Some 1) (Some end_quote) arg_string,
            Some (strip (slice (Some (end_quote + 1)) None arg_string)))
         else (slice (Some 1) None arg_string, None))
      else
        (let next_space = py_find SPACE arg_string in
         if next_space \<ge> 0 then
           (strip (slice None (Some next_space) arg_string),
            Some (strip (slice (Some next_space) None arg_string)))
         else (strip arg_string, None)))"

text \<open>
  The tokenizer contract in the words of the specification (section 4.1): a quoted token
  is the text between the quotes, an unquoted token is the text up to the first space, and
  only the whole string of the no-space case is trimmed.
\<close>

definition nextToken :: "pystr \<Rightarrow> pystr \<times> pystr option" where
  "nextToken s =
     (if s \<noteq> [] \<and> hd s = QUOTE then
        (if QUOTE \<in> set (tl s) then
           (takeWhile (\<lambda>c. c \<noteq> QUOTE) (tl s),
            Some (strip (tl (dropWhile (\<lambda>c. c \<noteq> QUOTE) (tl s)))))
         else (tl s, None))
      else if SPACE \<in> set s then
        (takeWhile (\<lambda>c. c \<noteq> SPACE) s, Some (strip (dropWhile (\<lambda>c. c \<noteq> SPACE) s)))
      else (strip s, None))"

text \<open>\<^verbatim>\<open>sub in s\<close>: \<open>sub\<close> occurs in \<open>s\<close> as a contiguous piece.\<close>

fun contains :: "pystr \<Rightarrow> pystr \<Rightarrow> bool" where
  "contains [] sub \<longleftrightarrow> sub = []"
| "contains (c # cs) sub \<longleftrightarrow> startswith (c # cs) sub \<or> contains cs sub"

text \<open>
  What \<^verbatim>\<open>'{}'.format(x)\<close> puts in place of the braces when \<open>x\<close> is a string or
  \<^verbatim>\<open>None\<close>.
\<close>

definition format_arg :: "pystr option \<Rightarrow> pystr" where
  "format_arg x = (case x of None \<Rightarrow> py ''None'' | Some s \<Rightarrow> s)"

section \<open>Messages, responses and embeds\<close>

text \<open>
  The fields of \<^verbatim>\<open>discord.Message\<close> that the code reads. Identifiers are strings in the
  client library the bot uses. \<open>server\<close> is the server's id, \<open>None\<close> for a direct
  message; \<open>channel\<close> is the id of the channel the message was sent in.
\<close>

record user =
  user_name :: pystr
  discriminator :: pystr
  user_id :: pystr

record message =
  content :: pystr
  author :: user
  server :: "pystr option"
  channel :: pystr

text \<open>
  \<^verbatim>\<open>
  class CommandError(Exception, CommandResponse):
      def __init__(self, text: str, help: Tuple[str, str] = None):
  \<close>
  One value serves as the raised exception and as the returned response.
\<close>

datatype command_error = CommandError (error_text: pystr) (error_help: "(pystr \<times> pystr) option")

datatype command_response =
    CommandResponse
  | CommandSuccess pystr
  | CommandError_value command_error

text \<open>
  The embed constructors of \<^verbatim>\<open>pluralkit.bot.embeds\<close> and \<^verbatim>\<open>discord.Embed()\<close> are
  outside the sources; an embed records which of them made it and what the code assigned
  to it afterwards.
\<close>

datatype embed_base =
    Discord_Embed
  | Embeds_status pystr
  | Embeds_success pystr
  | Embeds_error pystr "(pystr \<times> pystr) option"

datatype colour = Dark_red

record embed =
  base :: embed_base
  title :: "pystr option"
  description :: "pystr option"
  colour :: "colour option"
  footer :: "pystr option"
  embed_fields :: "(pystr \<times> pystr) list"

definition new_embed :: "embed_base \<Rightarrow> embed" where
  "new_embed b =
     \<lparr>base = b, title = None, description = None, colour = None, footer = None, embed_fields = []\<rparr>"

abbreviation CHECK_MARK :: nat where
  "CHECK_MARK \<equiv> 9989"

abbreviation CROSS_MARK :: nat where
  "CROSS_MARK \<equiv> 10060"

text \<open>
  \<^verbatim>\<open>to_embed\<close>: \<^verbatim>\<open>pass\<close> in the base class, \<^verbatim>\<open>embeds.success("\u2705 " + self.text)\<close>
  for a success and \<^verbatim>\<open>embeds.error("\u274c " + self.text, self.help)\<close> for an error.
\<close>

fun to_embed :: "command_response \<Rightarrow> embed option" where
  "to_embed CommandResponse = None"
| "to_embed (CommandSuccess t) = Some (new_embed (Embeds_success ([CHECK_MARK, SPACE] @ t)))"
| "to_embed (CommandError_value e) =
     Some (new_embed (Embeds_error ([CROSS_MARK, SPACE] @ error_text e) (error_help e)))"

section \<open>Effects\<close>

text \<open>
  The calls a dispatch makes to its collaborators (the chat client, the logger, the
  database), in the order it makes them. A message is sent either to the channel of the
  incoming message or to the channel \<^verbatim>\<open>client.get_channel\<close> finds for an id. Every call is
  taken to return normally; what it returns is an input of the function that makes it.
\<close>

datatype destination = Message_channel pystr | Get_channel pystr

datatype action =
    Send_message destination "pystr option" "embed option"
  | Add_reaction pystr
  | Wait_for_reaction "pystr list" user int
  | Wait_for_message pystr user int
  | Logger_exception pystr
  | Db_get_system_by_account pystr
  | Utils_get_system_fuzzy "pystr option"
  | Utils_get_member_fuzzy "int option" "pystr option" bool
  | Collaborator_call pystr

text \<open>
  A handler ends by returning a value or by raising. Only a returned \<^verbatim>\<open>CommandResponse\<close>
  matters to the dispatcher; \<open>No_response\<close> stands for \<^verbatim>\<open>None\<close> and every other value.
  The exceptions are the subclasses of \<^verbatim>\<open>Exception\<close>: a \<^verbatim>\<open>CommandError\<close>, or any other,
  named by a string.
\<close>

datatype py_result = No_response | Response command_response

datatype exn = Command_error_raised command_error | Other_exception pystr

datatype outcome = Returned py_result | Raised exn

section \<open>The command context\<close>

text \<open>
  \<^verbatim>\<open>CommandContext\<close> holds the client, the message, the database connection and the
  argument string. The client and the connection are handles to the collaborators and carry
  no state of the dispatch; the record keeps the other two. \<open>args\<close> starts as a string
  and becomes \<^verbatim>\<open>None\<close> when the tokenizer returns no remainder.
\<close>

record command_context =
  message :: message
  args :: "pystr option"

record system =
  system_id :: int

text \<open>
  \<^verbatim>\<open>
  async def get_system(self) -> Optional[System]:
      return await db.get_system_by_account(self.conn, self.message.author.id)

  async def ensure_system(self) -> System:
      system = await self.get_system()
      if not system:
          raise CommandError("No system registered to this account. Use `pk;system new` to register one.")
      return system
  \<close>
  \<open>db\<close> is the answer of the database at the time of the call.
\<close>

definition get_system ::
  "(pystr \<Rightarrow> system option) \<Rightarrow> command_context \<Rightarrow> action list \<times> system option" where
  "get_system db ctx =
     ([Db_get_system_by_account (user_id (author (message ctx)))],
      db (user_id (author (message ctx))))"

definition no_system_error :: command_error where
  "no_system_error =
     CommandError (py ''No system registered to this account. Use '' @ [96] @
       py ''pk;system new'' @ [96] @ py '' to register one.'') None"

definition ensure_system ::
  "(pystr \<Rightarrow> system option) \<Rightarrow> command_context \<Rightarrow> action list \<times> (command_error + system)" where
  "ensure_system db ctx =
     (let (acts, system) = get_system db ctx in
      case system of
        None \<Rightarrow> (acts, Inl no_system_error)
      | Some sys \<Rightarrow> (acts, Inr sys))"

text \<open>\<^verbatim>\<open>bool(self.args)\<close>: false for \<^verbatim>\<open>None\<close> and for the empty string.\<close>

definition has_next :: "command_context \<Rightarrow> bool" where
  "has_next ctx \<longleftrightarrow> (case args ctx of None \<Rightarrow> False | Some a \<Rightarrow> a \<noteq> [])"

text \<open>
  \<^verbatim>\<open>
  def pop_str(self, error: CommandError = None) -> str:
      if not self.args:
          if error:
              raise error
          return None

      popped, self.args = next_arg(self.args)
      return popped
  \<close>
  A \<^verbatim>\<open>CommandError\<close> object is always true, so \<^verbatim>\<open>if error\<close> asks whether one was
  passed. The result is the raised error or the returned value, and the context after
  the call.
\<close>

definition pop_str ::
  "command_error option \<Rightarrow> command_context \<Rightarrow> (command_error + pystr option) \<times> command_context" where
  "pop_str error ctx =
     (if \<not> has_next ctx then
        (case error of
           Some e \<Rightarrow> (Inl e, ctx)
         | None \<Rightarrow> (Inr None, ctx))
      else
        (let (popped, rest) = next_arg (case args ctx of Some a \<Rightarrow> a | None \<Rightarrow> [])
         in (Inr (Some popped), ctx\<lparr>args := rest\<rparr>)))"

text \<open>
  \<^verbatim>\<open>
  async def pop_system(self, error: CommandError = None) -> System:
      name = self.pop_str(error)
      system = await utils.get_system_fuzzy(self.conn, self.client, name)
      if not system:
          raise CommandError("Unable to find system '{}'.".format(name))
      return system
  \<close>
  \<open>fuzzy\<close> is what \<^verbatim>\<open>utils.get_system_fuzzy\<close> answers for a name.
\<close>

definition pop_system ::
  "(pystr option \<Rightarrow> system option) \<Rightarrow> command_error option \<Rightarrow> command_context \<Rightarrow>
     action list \<times> (command_error + system) \<times> command_context" where
  "pop_system fuzzy error ctx =
     (case pop_str error ctx of
        (Inl e, ctx') \<Rightarrow> ([], Inl e, ctx')
      | (Inr name, ctx') \<Rightarrow>
          (case fuzzy name of
             None \<Rightarrow>
               ([Utils_get_system_fuzzy name],
                Inl (CommandError
                  (py ''Unable to find system '' @ [39] @ format_arg name @ [39] @ py ''.'') None),
                ctx')
           | Some sys \<Rightarrow> ([Utils_get_system_fuzzy name], Inr sys, ctx')))"

text \<open>
  \<^verbatim>\<open>
  async def pop_member(self, error: CommandError = None, system_only: bool = True) -> Member:
      name = self.pop_str(error)
      if system_only:
          system = await self.ensure_system()
      else:
          system = await self.get_system()
      member = await utils.get_member_fuzzy(self.conn, system.id if system else None, name, system_only)
      if not member:
          raise CommandError("Unable to find member '{}'{}.".format(name, " in your system" if system_only else ""))
      return member
  \<close>
  \<open>fuzzy\<close> is what \<^verbatim>\<open>utils.get_member_fuzzy\<close> answers.
\<close>

definition member_lookup ::
  "(int option \<Rightarrow> pystr option \<Rightarrow> bool \<Rightarrow> 'member option) \<Rightarrow> action list \<Rightarrow> system option \<Rightarrow>
     pystr option \<Rightarrow> bool \<Rightarrow> command_context \<Rightarrow>
     action list \<times> (command_error + 'member) \<times> command_context" where
  "member_lookup fuzzy acts system name system_only ctx =
     (let sid = (case system of None \<Rightarrow> None | Some sys \<Rightarrow> Some (system_id sys));
          acts' = acts @ [Utils_get_member_fuzzy sid name system_only]
      in case fuzzy sid name system_only of
           None \<Rightarrow>
             (acts',
              Inl (CommandError
                (py ''Unable to find member '' @ [39] @ format_arg name @ [39] @
                 (if system_only then py '' in your system'' else []) @ py ''.'') None),
              ctx)
         | Some m \<Rightarrow> (acts', Inr m, ctx))"

definition pop_member ::
  "(pystr \<Rightarrow> system option) \<Rightarrow> (int option \<Rightarrow> pystr option \<Rightarrow> bool \<Rightarrow> 'member option) \<Rightarrow>
     command_error option \<Rightarrow> bool \<Rightarrow> command_context \<Rightarrow>
     action list \<times> (command_error + 'member) \<times> command_context" where
  "pop_member db fuzzy error system_only ctx =
     (case pop_str error ctx of
        (Inl e, ctx') \<Rightarrow> ([], Inl e, ctx')
      | (Inr name, ctx') \<Rightarrow>
          (if system_only then
             (case ensure_system db ctx' of
                (acts, Inl e) \<Rightarrow> (acts, Inl e, ctx')
              | (acts, Inr sys) \<Rightarrow> member_lookup fuzzy acts (Some sys) name system_only ctx')
           else
             (case get_system db ctx' of
                (acts, system) \<Rightarrow> member_lookup fuzzy acts system name system_only ctx')))"

text \<open>\<^verbatim>\<open>remaining\<close> returns \<^verbatim>\<open>self.args\<close>.\<close>

definition remaining :: "command_context \<Rightarrow> pystr option" where
  "remaining ctx = args ctx"

text \<open>
  \<^verbatim>\<open>reply\<close> is \<^verbatim>\<open>client.send_message(self.message.channel, content=content, embed=embed)\<close>.
\<close>

definition reply :: "command_context \<Rightarrow> pystr option \<Rightarrow> embed option \<Rightarrow> action" where
  "reply ctx c e = Send_message (Message_channel (channel (message ctx))) c e"

section \<open>The confirmation protocols\<close>

text \<open>
  \<^verbatim>\<open>
  async def confirm_react(self, user, message: str):
      message = await self.reply(message)
      await self.client.add_reaction(message, "\u2705")
      await self.client.add_reaction(message, "\u274c")
      reaction = await self.client.wait_for_reaction(emoji=["\u2705", "\u274c"], user=user, timeout=60.0*5)
      if not reaction:
          raise CommandError("Timed out - try again.")
      return reaction.reaction.emoji == "\u2705"
  \<close>
  \<open>reaction\<close> is what \<^verbatim>\<open>wait_for_reaction\<close> returns: the emoji of the reaction that
  arrived, or \<^verbatim>\<open>None\<close> when the timeout passed first. The timeout \<^verbatim>\<open>60.0*5\<close> is a whole
  number of seconds and is kept as an integer.
\<close>

definition timed_out :: command_error where
  "timed_out = CommandError (py ''Timed out - try again.'') None"

definition confirm_react ::
  "pystr option \<Rightarrow> command_context \<Rightarrow> user \<Rightarrow> pystr \<Rightarrow> action list \<times> (command_error + bool)" where
  "confirm_react reaction ctx usr prompt =
     ([reply ctx (Some prompt) None,
       Add_reaction [CHECK_MARK],
       Add_reaction [CROSS_MARK],
       Wait_for_reaction [[CHECK_MARK], [CROSS_MARK]] usr (60 * 5)],
      (case reaction of
         None \<Rightarrow> Inl timed_out
       | Some emoji \<Rightarrow> Inr (emoji = [CHECK_MARK])))"

text \<open>
  \<^verbatim>\<open>
  async def confirm_text(self, user, channel, confirm_text: str, message: str):
      await self.reply(message)
      message = await self.client.wait_for_message(channel=channel, author=user, timeout=60.0*5)
      if not message:
          raise CommandError("Timed out - try again.")
      return message.content == confirm_text
  \<close>
  \<open>received\<close> is the message \<^verbatim>\<open>wait_for_message\<close> returns, \<^verbatim>\<open>None\<close> on timeout.
\<close>

definition confirm_text ::
  "message option \<Rightarrow> command_context \<Rightarrow> user \<Rightarrow> pystr \<Rightarrow> pystr \<Rightarrow> pystr \<Rightarrow>
     action list \<times> (command_error + bool)" where
  "confirm_text received ctx usr chan expected prompt =
     ([reply ctx (Some prompt) None, Wait_for_message chan usr (60 * 5)],
      (case received of
         None \<Rightarrow> Inl timed_out
       | Some m \<Rightarrow> Inr (content m = expected)))"

section \<open>The dispatcher\<close>

text \<open>
  The environment of the process: the variable \<^verbatim>\<open>LOG_CHANNEL\<close> (\<open>None\<close> when it is
  not set), and the text \<^verbatim>\<open>traceback.format_exc()\<close> gives for the exception being handled.
\<close>

record environment =
  LOG_CHANNEL :: "pystr option"
  format_exc :: "exn \<Rightarrow> pystr"

text \<open>
  \<^verbatim>\<open>
  async def log_error_in_channel(ctx: CommandContext):
      channel_id = os.environ["LOG_CHANNEL"]
      if not channel_id:
          return
      channel = ctx.client.get_channel(channel_id)
      embed = discord.Embed()
      embed.colour = discord.Colour.dark_red()
      embed.title = ctx.message.content
      embed.set_footer(text="Sender: {}#{} | Server: {} | Channel: {}".format(
          ctx.message.author.name, ctx.message.author.discriminator,
          ctx.message.server.id if ctx.message.server else "(DMs)",
          ctx.message.channel.id
      ))
      await ctx.client.send_message(channel, "```python\n{}```".format(traceback.format_exc()), embed=embed)
  \<close>
  \<open>x\<close> is the exception being handled. The lookup of an unset variable raises
  \<^verbatim>\<open>KeyError\<close>, which is the second component of the result.
\<close>

definition log_footer :: "message \<Rightarrow> pystr" where
  "log_footer m =
     py ''Sender: '' @ user_name (author m) @ py ''#'' @ discriminator (author m) @
     py '' | Server: '' @ (case server m of Some sid \<Rightarrow> sid | None \<Rightarrow> py ''(DMs)'') @
     py '' | Channel: '' @ channel m"

definition log_embed :: "message \<Rightarrow> embed" where
  "log_embed m =
     (new_embed Discord_Embed)
       \<lparr>title := Some (content m), colour := Some Dark_red, footer := Some (log_footer m)\<rparr>"

definition log_error_in_channel ::
  "environment \<Rightarrow> command_context \<Rightarrow> exn \<Rightarrow> action list \<times> exn option" where
  "log_error_in_channel env ctx x =
     (case LOG_CHANNEL env of
        None \<Rightarrow> ([], Some (Other_exception (py ''KeyError: LOG_CHANNEL'')))
      | Some channel_id \<Rightarrow>
          if channel_id = [] then ([], None)
          else
            ([Send_message (Get_channel channel_id)
                (Some ([96, 96, 96] @ py ''python'' @ [10] @ format_exc env x @ [96, 96, 96]))
                (Some (log_embed (message ctx)))],
             None))"

text \<open>
  \<^verbatim>\<open>
  async def run_command(ctx: CommandContext, func):
      try:
          result = await func(ctx)
          if isinstance(result, CommandResponse):
              await ctx.reply(embed=result.to_embed())
      except CommandError as e:
          await ctx.reply(embed=e.to_embed())
      except Exception as e:
          logger.exception("Exception while dispatching command")
          await log_error_in_channel(ctx)
  \<close>
  A handler is a function from the context to the calls it makes and the way it ends.
  The result is every call of the dispatch, and the exception that leaves
  \<^verbatim>\<open>run_command\<close>, if one does.
\<close>

type_synonym handler_fn = "command_context \<Rightarrow> action list \<times> outcome"

definition run_command ::
  "environment \<Rightarrow> command_context \<Rightarrow> handler_fn \<Rightarrow> action list \<times> exn option" where
  "run_command env ctx func =
     (case func ctx of
        (acts, Returned No_response) \<Rightarrow> (acts, None)
      | (acts, Returned (Response result)) \<Rightarrow> (acts @ [reply ctx None (to_embed result)], None)
      | (acts, Raised (Command_error_raised e)) \<Rightarrow>
          (acts @ [reply ctx None (to_embed (CommandError_value e))], None)
      | (acts, Raised (Other_exception x)) \<Rightarrow>
          (let (logged, escaped) = log_error_in_channel env ctx (Other_exception x) in
           (acts @ [Logger_exception (py ''Exception while dispatching command'')] @ logged,
            escaped)))"

section \<open>The router\<close>

text \<open>
  The patterns of the command table are regular expressions built from literal
  characters, groups of alternatives \<^verbatim>\<open>(a|b)\<close>, one optional group \<^verbatim>\<open>(age)?\<close> and the
  anchor \<^verbatim>\<open>^\<close> of the prefix. They are kept as syntax trees.
\<close>

datatype regex =
    Lit nat
  | Bol
  | Eps
  | Seq regex regex
  | Alt regex regex
  | Opt regex

text \<open>
  Whether a character of the message matches a literal of the pattern under
  \<^verbatim>\<open>re.IGNORECASE\<close>, for an ASCII literal (the table has no other): the two cases of a
  letter, and the four characters outside ASCII whose case folding meets an ASCII letter
  (U+0130 and U+0131 for \<open>i\<close>, U+212A for \<open>k\<close>, U+017F for \<open>s\<close>).
\<close>

definition ascii_lower :: "nat \<Rightarrow> nat" where
  "ascii_lower c = (if 65 \<le> c \<and> c \<le> 90 then c + 32 else c)"

definition ci_match :: "nat \<Rightarrow> nat \<Rightarrow> bool" where
  "ci_match c p \<longleftrightarrow>
     ascii_lower c = ascii_lower p \<or>
     (ascii_lower p = 105 \<and> (c = 304 \<or> c = 305)) \<or>
     (ascii_lower p = 107 \<and> c = 8490) \<or>
     (ascii_lower p = 115 \<and> c = 383)"

text \<open>
  The backtracking matcher: \<open>matches r s i\<close> lists the positions where a match of
  \<open>r\<close> that starts at position \<open>i\<close> of \<open>s\<close> can end, in the order the engine tries
  them (the alternatives of a group from left to right, an optional group first with its
  content). \<^verbatim>\<open>regex.match(s)\<close> starts at position 0 and returns the first of them; its
  span is from 0 to that position.
\<close>

fun matches :: "regex \<Rightarrow> pystr \<Rightarrow> nat \<Rightarrow> nat list" where
  "matches (Lit p) s i = (if i < length s \<and> ci_match (s ! i) p then [Suc i] else [])"
| "matches Bol s i = (if i = 0 then [i] else [])"
| "matches Eps s i = [i]"
| "matches (Seq a b) s i = concat (map (matches b s) (matches a s i))"
| "matches (Alt a b) s i = matches a s i @ matches b s i"
| "matches (Opt a) s i = matches a s i @ [i]"

definition re_match :: "regex \<Rightarrow> pystr \<Rightarrow> (nat \<times> nat) option" where
  "re_match r s = (case matches r s 0 of [] \<Rightarrow> None | e # _ \<Rightarrow> Some (0, e))"

text \<open>A run of literal characters, and a group of literal alternatives.\<close>

fun literal :: "pystr \<Rightarrow> regex" where
  "literal [] = Eps"
| "literal (c # cs) = Seq (Lit c) (literal cs)"

fun one_of :: "pystr list \<Rightarrow> regex" where
  "one_of [] = Eps"
| "one_of [w] = literal w"
| "one_of (w # ws) = Alt (literal w) (one_of ws)"

text \<open>The handlers the table names.\<close>

datatype handler =
    New_system | System_set | System_link | System_unlink | System_fronter
  | System_fronthistory | System_delete | System_frontpercent | System_info
  | Import_tupperware
  | New_member | Member_set | Member_proxy | Member_delete | Member_info
  | Message_info
  | Set_log
  | Invite_link | Export
  | Show_help
  | Switch_move | Switch_out | Switch_member

text \<open>\<^verbatim>\<open>prefix = "^pk(;|!)"\<close>\<close>

definition prefix :: regex where
  "prefix = Seq Bol (Seq (literal (py ''pk'')) (one_of [py '';'', py ''!'']))"

text \<open>
  \<^verbatim>\<open>
  commands = [
      (r"system (new|register|create|init)", system_commands.new_system),
      (r"system set", system_commands.system_set),
      (r"system link", system_commands.system_link),
      (r"system unlink", system_commands.system_unlink),
      (r"system fronter", system_commands.system_fronter),
      (r"system fronthistory", system_commands.system_fronthistory),
      (r"system (delete|remove|destroy|erase)", system_commands.system_delete),
      (r"system frontpercent(age)?", system_commands.system_frontpercent),
      (r"system", system_commands.system_info),
      (r"import tupperware", import_commands.import_tupperware),
      (r"member (new|create|add|register)", member_commands.new_member),
      (r"member set", member_commands.member_set),
      (r"member proxy", member_commands.member_proxy),
      (r"member (delete|remove|destroy|erase)", member_commands.member_delete),
      (r"member", member_commands.member_info),
      (r"message", message_commands.message_info),
      (r"mod log", mod_commands.set_log),
      (r"invite", misc_commands.invite_link),
      (r"export", misc_commands.export),
      (r"help", misc_commands.show_help),
      (r"switch move", switch_commands.switch_move),
      (r"switch out", switch_commands.switch_out),
      (r"switch", switch_commands.switch_member)
  ]
  \<close>
\<close>

definition commands :: "(regex \<times> handler) list" where
  "commands =
     [(Seq (literal (py ''system '')) (one_of (map py [''new'', ''register'', ''create'', ''init''])),
       New_system),
      (literal (py ''system set''), System_set),
      (literal (py ''system link''), System_link),
      (literal (py ''system unlink''), System_unlink),
      (literal (py ''system fronter''), System_fronter),
      (literal (py ''system fronthistory''), System_fronthistory),
      (Seq (literal (py ''system '')) (one_of (map py [''delete'', ''remove'', ''destroy'', ''erase''])),
       System_delete),
      (Seq (literal (py ''system frontpercent'')) (Opt (literal (py ''age''))), System_frontpercent),
      (literal (py ''system''), System_info),
      (literal (py ''import tupperware''), Import_tupperware),
      (Seq (literal (py ''member '')) (one_of (map py [''new'', ''create'', ''add'', ''register''])),
       New_member),
      (literal (py ''member set''), Member_set),
      (literal (py ''member proxy''), Member_proxy),
      (Seq (literal (py ''member '')) (one_of (map py [''delete'', ''remove'', ''destroy'', ''erase''])),
       Member_delete),
      (literal (py ''member''), Member_info),
      (literal (py ''message''), Message_info),
      (literal (py ''mod log''), Set_log),
      (literal (py ''invite''), Invite_link),
      (literal (py ''export''), Export),
      (literal (py ''help''), Show_help),
      (literal (py ''switch move''), Switch_move),
      (literal (py ''switch out''), Switch_out),
      (literal (py ''switch''), Switch_member)]"

text \<open>
  \<^verbatim>\<open>
  for pattern, func in commands:
      regex = re.compile(prefix + pattern, re.IGNORECASE)
      cmd = message.content
      match = regex.match(cmd)
      if match:
          remaining_string = cmd[match.span()[1]:].strip()
          ctx = CommandContext(client=client, message=message, conn=conn, args=remaining_string)
          await run_command(ctx, func)
          return True
  return False
  \<close>
  No pattern of the table has an alternative outside a group, so the expression compiled
  from \<^verbatim>\<open>prefix + pattern\<close> is the prefix followed by the pattern. \<open>invoke\<close> is the body
  of \<^verbatim>\<open>if match\<close> for a match that ends at \<open>e\<close>, and \<open>run_and_return\<close> its last two
  lines; \<open>handlers\<close> gives each handler of the table its behaviour. The result is the
  calls made, and the returned flag or the exception that leaves the dispatcher.
\<close>

definition run_and_return ::
  "environment \<Rightarrow> command_context \<Rightarrow> handler_fn \<Rightarrow> action list \<times> (exn + bool)" where
  "run_and_return env ctx func =
     (let (acts, escaped) = run_command env ctx func
      in (acts, case escaped of None \<Rightarrow> Inr True | Some x \<Rightarrow> Inl x))"

definition invoke ::
  "environment \<Rightarrow> (handler \<Rightarrow> handler_fn) \<Rightarrow> message \<Rightarrow> handler \<Rightarrow> nat \<Rightarrow>
     action list \<times> (exn + bool)" where
  "invoke env handlers msg func e =
     (let cmd = content msg;
          remaining_string = strip (slice (Some (int e)) None cmd);
          ctx = \<lparr>message = msg, args = Some remaining_string\<rparr>
      in run_and_return env ctx (handlers func))"

fun dispatch_loop ::
  "environment \<Rightarrow> (handler \<Rightarrow> handler_fn) \<Rightarrow> message \<Rightarrow> (regex \<times> handler) list \<Rightarrow>
     action list \<times> (exn + bool)" where
  "dispatch_loop env handlers msg [] = ([], Inr False)"
| "dispatch_loop env handlers msg ((pattern, func) # rest) =
     (case re_match (Seq prefix pattern) (content msg) of
        Some span \<Rightarrow> invoke env handlers msg func (snd span)
      | None \<Rightarrow> dispatch_loop env handlers msg rest)"

definition command_dispatch ::
  "environment \<Rightarrow> (handler \<Rightarrow> handler_fn) \<Rightarrow> message \<Rightarrow> action list \<times> (exn + bool)" where
  "command_dispatch env handlers msg = dispatch_loop env handlers msg commands"

text \<open>
  The strings a pattern stands for, and whether a message begins with one of them up to
  the case of its letters. \<open>invocations\<close> are the strings of the whole grammar: the
  prefix \<open>pk\<close>, then \<open>;\<close> (59) or \<open>!\<close> (33), then a phrase of the pattern.
\<close>

fun phrases :: "regex \<Rightarrow> pystr list" where
  "phrases (Lit p) = [[p]]"
| "phrases Bol = [[]]"
| "phrases Eps = [[]]"
| "phrases (Seq a b) = concat (map (\<lambda>u. map (\<lambda>v. u @ v) (phrases b)) (phrases a))"
| "phrases (Alt a b) = phrases a @ phrases b"
| "phrases (Opt a) = phrases a @ [[]]"

definition begins_ci :: "pystr \<Rightarrow> pystr \<Rightarrow> bool" where
  "begins_ci s w \<longleftrightarrow> length w \<le> length s \<and> list_all2 ci_match (take (length w) s) w"

definition invocations :: "regex \<Rightarrow> pystr list" where
  "invocations pattern =
     concat (map (\<lambda>d. map (\<lambda>w. py ''pk'' @ [d] @ w) (phrases pattern)) [59, 33])"

section \<open>Two handlers\<close>

text \<open>
  \<^verbatim>\<open>
  async def show_help(ctx: CommandContext):
      embed = embeds.status("")
      embed.title = "PluralKit Help"
      embed.set_footer(text="By Astrid (Ske#6201; pk;member qoxvy) | GitHub: https://github.com/xSke/PluralKit/")
      category = ctx.pop_str() if ctx.has_next() else None
      from pluralkit.bot.help import help_pages
      if category in help_pages:
          for name, text in help_pages[category]:
              if name:
                  embed.add_field(name=name, value=text)
              else:
                  embed.description = text
      else:
          return CommandError("Unknown help page '{}'.".format(category))
      await ctx.reply(embed=embed)
  \<close>
  \<open>help_pages\<close> is the dictionary of \<^verbatim>\<open>pluralkit.bot.help\<close>, which is outside the sources.
\<close>

fun add_help_entry :: "embed \<Rightarrow> pystr option \<times> pystr \<Rightarrow> embed" where
  "add_help_entry emb (nm, txt) =
     (case nm of
        None \<Rightarrow> emb\<lparr>description := Some txt\<rparr>
      | Some n \<Rightarrow>
          if n \<noteq> [] then emb\<lparr>embed_fields := embed_fields emb @ [(n, txt)]\<rparr>
          else emb\<lparr>description := Some txt\<rparr>)"

definition show_help ::
  "(pystr option \<rightharpoonup> (pystr option \<times> pystr) list) \<Rightarrow> handler_fn" where
  "show_help help_pages ctx =
     (let emb =
            (new_embed (Embeds_status []))
              \<lparr>title := Some (py ''PluralKit Help''),
               footer := Some (py ''By Astrid (Ske#6201; pk;member qoxvy) | GitHub: https://github.com/xSke/PluralKit/'')\<rparr>;
          category =
            (if has_next ctx then
               (case fst (pop_str None ctx) of Inr popped \<Rightarrow> popped | Inl e \<Rightarrow> None)
             else None)
      in case help_pages category of
           Some entries \<Rightarrow> ([reply ctx None (Some (foldl add_help_entry emb entries))], Returned No_response)
         | None \<Rightarrow>
             ([], Returned (Response (CommandError_value (CommandError
                (py ''Unknown help page '' @ [39] @ format_arg category @ [39] @ py ''.'') None)))))"

text \<open>
  \<^verbatim>\<open>
  async def message_info(ctx: CommandContext):
      mid_str = ctx.pop_str(CommandError("You must pass a message ID.", help=help.message_lookup))
      try:
          mid = int(mid_str)
      except ValueError:
          return CommandError("You must pass a valid number as a message ID.", help=help.message_lookup)
      ...
  \<close>
  \<open>message_lookup\<close> is the help reference of \<^verbatim>\<open>pluralkit.bot.help\<close>; \<open>py_int\<close> is
  \<^verbatim>\<open>int\<close> on a string, \<open>None\<close> where it raises \<^verbatim>\<open>ValueError\<close>; \<open>lookup\<close> is the
  rest of the handler (the database lookup and the embed it replies with), run on the
  number and the context.
\<close>

definition message_info ::
  "pystr \<times> pystr \<Rightarrow> (pystr \<Rightarrow> int option) \<Rightarrow> (int \<Rightarrow> handler_fn) \<Rightarrow> handler_fn" where
  "message_info message_lookup py_int lookup ctx =
     (case pop_str (Some (CommandError (py ''You must pass a message ID.'') (Some message_lookup))) ctx of
        (Inl e, ctx') \<Rightarrow> ([], Raised (Command_error_raised e))
      | (Inr None, ctx') \<Rightarrow> ([], Raised (Other_exception (py ''TypeError'')))
      | (Inr (Some mid_str), ctx') \<Rightarrow>
          (case py_int mid_str of
             None \<Rightarrow>
               ([], Returned (Response (CommandError_value (CommandError
                  (py ''You must pass a valid number as a message ID.'') (Some message_lookup)))))
           | Some mid \<Rightarrow> lookup mid ctx'))"

section \<open>Predicates on effects and patterns\<close>

text \<open>
  A fetch of the invoking account's system from the database; a message sent to the
  channel of the incoming message, which is what the user sees as the reply.
\<close>

fun is_fetch :: "action \<Rightarrow> bool" where
  "is_fetch (Db_get_system_by_account a) = True"
| "is_fetch other = False"

fun is_reply :: "action \<Rightarrow> bool" where
  "is_reply (Send_message (Message_channel c) t e) = True"
| "is_reply other = False"

text \<open>A pattern without the anchor \<^verbatim>\<open>^\<close>, as every pattern of the table is.\<close>

fun bol_free :: "regex \<Rightarrow> bool" where
  "bol_free (Lit p) = True"
| "bol_free Bol = False"
| "bol_free Eps = True"
| "bol_free (Seq a b) = (bol_free a \<and> bol_free b)"
| "bol_free (Alt a b) = (bol_free a \<and> bol_free b)"
| "bol_free (Opt a) = bol_free a"

section \<open>A message to evaluate the definitions on\<close>

text \<open>A direct message with the given content, from a fixed account.\<close>

definition example_user :: user where
  "example_user = \<lparr>user_name = py ''Ske'', discriminator = py ''6201'', user_id = py ''1''\<rparr>"

definition example_message :: "pystr \<Rightarrow> message" where
  "example_message c = \<lparr>content = c, author = example_user, server = None, channel = py ''2''\<rparr>"

definition example_context :: "pystr \<Rightarrow> command_context" where
  "example_context a = \<lparr>message = example_message (py ''pk;help''), args = Some a\<rparr>"

section \<open>Facts about the string primitives\<close>

lemma py_find_absent: "c \<notin> set s \<Longrightarrow> py_find c s = - 1"
  by (induction s) (auto simp: Let_def)

lemma py_find_present:
  "c \<in> set s \<Longrightarrow> py_find c s = int (length (takeWhile (\<lambda>x. x \<noteq> c) s))"
  by (induction s) (auto simp: Let_def py_find_absent)

lemma slice_from: "slice (Some (int k)) None s = drop k s"
  by (simp add: slice_def clamp_index_def Let_def min_def)

lemma slice_to: "slice None (Some (int k)) s = take k s"
  by (simp add: slice_def clamp_index_def Let_def min_def)

lemma slice_between:
  "slice (Some (int j)) (Some (int k)) s = take (k - j) (drop j s)"
  by (simp add: slice_def clamp_index_def Let_def min_def take_drop)

section \<open>Facts about the tokenizer\<close>

lemma strip_Nil: "strip [] = []"
  by (simp add: strip_def)

lemma strip_space_Cons: "isspace c \<Longrightarrow> strip (c # s) = strip s"
  by (simp add: strip_def)

lemma rev_dropWhile_split:
  "rev (dropWhile P (rev xs)) @ rev (takeWhile P (rev xs)) = xs"
proof -
  have "rev (dropWhile P (rev xs)) @ rev (takeWhile P (rev xs)) =
        rev (takeWhile P (rev xs) @ dropWhile P (rev xs))"
    by (simp only: rev_append)
  also have "\<dots> = rev (rev xs)"
    by (simp only: takeWhile_dropWhile_id)
  finally show ?thesis by simp
qed

lemma strip_split:
  "dropWhile isspace s = strip s @ rev (takeWhile isspace (rev (dropWhile isspace s)))"
  unfolding strip_def by (rule rev_dropWhile_split [symmetric])

lemma strip_no_leading_space: "strip s \<noteq> [] \<Longrightarrow> \<not> isspace (hd (strip s))"
proof -
  assume ne: "strip s \<noteq> []"
  let ?d = "dropWhile isspace s"
  from ne strip_split [of s] have "hd ?d = hd (strip s)" by (metis hd_append2)
  moreover from ne strip_split [of s] have "?d \<noteq> []" by (metis Nil_is_append_conv)
  then have "\<not> isspace (hd ?d)" by (rule hd_dropWhile)
  ultimately show ?thesis by simp
qed

lemma strip_decompose: "\<exists>a b. s = a @ strip s @ b"
proof -
  have "s = takeWhile isspace s @ dropWhile isspace s" by simp
  with strip_split [of s]
  have "s = takeWhile isspace s @ strip s @ rev (takeWhile isspace (rev (dropWhile isspace s)))"
    by simp
  then show ?thesis by blast
qed

lemma next_arg_cases:
  "next_arg s =
     (if startswith s [QUOTE] then
        (if QUOTE \<in> set (tl s) then
           (takeWhile (\<lambda>c. c \<noteq> QUOTE) (tl s),
            Some (strip (tl (dropWhile (\<lambda>c. c \<noteq> QUOTE) (tl s)))))
         else (tl s, None))
      else if SPACE \<in> set s then
        (strip (takeWhile (\<lambda>c. c \<noteq> SPACE) s), Some (strip (dropWhile (\<lambda>c. c \<noteq> SPACE) s)))
      else (strip s, None))"
proof (cases "startswith s [QUOTE]")
  case True
  then obtain t where s: "s = QUOTE # t" by (cases s) (auto simp: startswith_def)
  then have ts: "tl s = t" by simp
  show ?thesis
  proof (cases "QUOTE \<in> set t")
    case q: True
    let ?k = "length (takeWhile (\<lambda>c. c \<noteq> QUOTE) t)"
    have f: "py_find QUOTE t = int ?k" using q by (rule py_find_present)
    have a: "slice (Some 1) None s = t" using slice_from [of 1 s] by (simp add: s)
    have b: "slice (Some 1) (Some (int ?k + 1)) s = takeWhile (\<lambda>c. c \<noteq> QUOTE) t"
      using slice_between [of 1 "?k + 1" s] by (simp add: s takeWhile_eq_take [symmetric] add.commute)
    have "tl (dropWhile (\<lambda>c. c \<noteq> QUOTE) t) = tl (drop ?k t)"
      by (simp add: dropWhile_eq_drop [symmetric])
    then have d: "drop ?k (tl t) = tl (dropWhile (\<lambda>c. c \<noteq> QUOTE) t)"
      by (simp add: tl_drop)
    have c: "slice (Some (int ?k + 1 + 1)) None s = tl (dropWhile (\<lambda>c. c \<noteq> QUOTE) t)"
      using slice_from [of "?k + 2" s] d by (simp add: s drop_Suc add.commute)
    show ?thesis unfolding next_arg_def Let_def a f b c using True q by (simp add: ts)
  next
    case q: False
    have f: "py_find QUOTE t = - 1" using q by (rule py_find_absent)
    have a: "slice (Some 1) None s = t" using slice_from [of 1 s] by (simp add: s)
    show ?thesis unfolding next_arg_def Let_def a f using True q by (simp add: ts)
  qed
next
  case False
  show ?thesis
  proof (cases "SPACE \<in> set s")
    case q: True
    let ?k = "length (takeWhile (\<lambda>c. c \<noteq> SPACE) s)"
    have f: "py_find SPACE s = int ?k" using q by (rule py_find_present)
    have b: "slice None (Some (int ?k)) s = takeWhile (\<lambda>c. c \<noteq> SPACE) s"
      by (simp add: slice_to takeWhile_eq_take [symmetric])
    have c: "slice (Some (int ?k)) None s = dropWhile (\<lambda>c. c \<noteq> SPACE) s"
      by (simp add: slice_from dropWhile_eq_drop [symmetric])
    show ?thesis unfolding next_arg_def Let_def f b c using False q by simp
  next
    case q: False
    have f: "py_find SPACE s = - 1" using q by (rule py_find_absent)
    show ?thesis unfolding next_arg_def Let_def f using False q by simp
  qed
qed

lemma next_arg_remainder:
  assumes "next_arg s = (tok, Some rest)"
  shows "(rest = [] \<or> \<not> isspace (hd rest)) \<and> (\<exists>a b c. s = a @ tok @ b @ c \<and> b \<noteq> [] \<and> rest = strip c)"
proof (cases "startswith s [QUOTE]")
  case True
  then obtain t where s: "s = QUOTE # t" by (cases s) (auto simp: startswith_def)
  from assms True have q: "QUOTE \<in> set t"
    and tok: "tok = takeWhile (\<lambda>c. c \<noteq> QUOTE) t"
    and rest: "rest = strip (tl (dropWhile (\<lambda>c. c \<noteq> QUOTE) t))"
    by (auto simp: next_arg_cases s split: if_splits)
  let ?d = "dropWhile (\<lambda>c. c \<noteq> QUOTE) t"
  from q have "?d \<noteq> []" by simp
  moreover from this have "hd ?d = QUOTE" using hd_dropWhile [of "\<lambda>c. c \<noteq> QUOTE" t] by simp
  ultimately have d: "?d = QUOTE # tl ?d" by (cases ?d) auto
  have "t = tok @ ?d" by (simp add: tok)
  with d have "s = [QUOTE] @ tok @ [QUOTE] @ tl ?d" by (simp add: s)
  then have "\<exists>a b c. s = a @ tok @ b @ c \<and> b \<noteq> [] \<and> rest = strip c"
    using rest by blast
  moreover have "rest = [] \<or> \<not> isspace (hd rest)"
    unfolding rest using strip_no_leading_space by blast
  ultimately show ?thesis by simp
next
  case False
  from assms False have q: "SPACE \<in> set s"
    and tok: "tok = strip (takeWhile (\<lambda>c. c \<noteq> SPACE) s)"
    and rest: "rest = strip (dropWhile (\<lambda>c. c \<noteq> SPACE) s)"
    by (auto simp: next_arg_cases split: if_splits)
  let ?u = "takeWhile (\<lambda>c. c \<noteq> SPACE) s"
  let ?d = "dropWhile (\<lambda>c. c \<noteq> SPACE) s"
  from q have "?d \<noteq> []" by simp
  moreover from this have "hd ?d = SPACE" using hd_dropWhile [of "\<lambda>c. c \<noteq> SPACE" s] by simp
  ultimately have d: "?d = SPACE # tl ?d" by (cases ?d) auto
  have sp: "isspace SPACE" by (simp add: isspace_def)
  have r: "rest = strip (tl ?d)"
    using rest d strip_space_Cons [OF sp, of "tl ?d"] by simp
  obtain a b where u: "?u = a @ tok @ b" using strip_decompose [of ?u] tok by blast
  have "s = ?u @ ?d" by simp
  with u d have "s = a @ tok @ (b @ [SPACE]) @ tl ?d" by simp
  then have "\<exists>a b c. s = a @ tok @ b @ c \<and> b \<noteq> [] \<and> rest = strip c"
    using r by blast
  moreover have "rest = [] \<or> \<not> isspace (hd rest)"
    unfolding rest using strip_no_leading_space by blast
  ultimately show ?thesis by simp
qed

lemma next_arg_no_remainder:
  assumes "next_arg s = (tok, None)"
  shows "\<exists>a b. s = a @ tok @ b"
proof (cases "startswith s [QUOTE]")
  case True
  then obtain t where s: "s = QUOTE # t" by (cases s) (auto simp: startswith_def)
  from assms True have "tok = t" by (auto simp: next_arg_cases s split: if_splits)
  then have "s = [QUOTE] @ tok @ []" by (simp add: s)
  then show ?thesis by blast
next
  case False
  from assms False have "tok = strip s" by (auto simp: next_arg_cases split: if_splits)
  then show ?thesis using strip_decompose [of s] by simp
qed

section \<open>Facts about the command context\<close>

lemma pop_str_empty:
  "\<not> has_next ctx \<Longrightarrow> pop_str error ctx = (case error of Some e \<Rightarrow> (Inl e, ctx) | None \<Rightarrow> (Inr None, ctx))"
  by (simp add: pop_str_def)

lemma pop_str_nonempty:
  "args ctx = Some s \<Longrightarrow> s \<noteq> [] \<Longrightarrow>
   pop_str error ctx = (Inr (Some (fst (next_arg s))), ctx\<lparr>args := snd (next_arg s)\<rparr>)"
  by (simp add: pop_str_def has_next_def split_def Let_def)

lemma pop_system_cursor: "snd (snd (pop_system fuzzy error ctx)) = snd (pop_str error ctx)"
  by (simp add: pop_system_def split: prod.splits sum.splits option.splits)

lemma pop_member_cursor:
  "snd (snd (pop_member db fuzzy error system_only ctx)) = snd (pop_str error ctx)"
  by (simp add: pop_member_def member_lookup_def ensure_system_def get_system_def Let_def
      split: prod.splits sum.splits option.splits)

section \<open>Facts about the dispatcher\<close>

lemma run_command_raised_error:
  "func ctx = (acts, Raised (Command_error_raised e)) \<Longrightarrow>
   run_command env ctx func =
     (acts @ [reply ctx None (to_embed (CommandError_value e))], None)"
  by (simp add: run_command_def)

lemma run_command_returned_error:
  "func ctx = (acts, Returned (Response (CommandError_value e))) \<Longrightarrow>
   run_command env ctx func =
     (acts @ [reply ctx None (to_embed (CommandError_value e))], None)"
  by (simp add: run_command_def)

lemma run_command_other:
  "func ctx = (acts, Raised (Other_exception x)) \<Longrightarrow>
   run_command env ctx func =
     (acts @ [Logger_exception (py ''Exception while dispatching command'')] @
        fst (log_error_in_channel env ctx (Other_exception x)),
      snd (log_error_in_channel env ctx (Other_exception x)))"
  by (simp add: run_command_def split_def Let_def)

lemma log_error_no_reply: "filter is_reply (fst (log_error_in_channel env ctx x)) = []"
  by (simp add: log_error_in_channel_def split: option.splits)

section \<open>Facts about the matcher\<close>

lemma begins_ci_Nil: "begins_ci s []"
  by (simp add: begins_ci_def)

lemma begins_ci_append:
  "begins_ci s (u @ v) \<longleftrightarrow> begins_ci s u \<and> begins_ci (drop (length u) s) v"
proof (cases "length u \<le> length s")
  case True
  then have l: "length (take (length u) s) = length u" by simp
  have "take (length u + length v) s = take (length u) s @ take (length v) (drop (length u) s)"
    by (simp add: take_add)
  then have "list_all2 ci_match (take (length (u @ v)) s) (u @ v) \<longleftrightarrow>
      list_all2 ci_match (take (length u) s) u \<and>
      list_all2 ci_match (take (length v) (drop (length u) s)) v"
    using l by (simp add: list_all2_append)
  with True show ?thesis by (auto simp: begins_ci_def)
next
  case False
  then show ?thesis by (simp add: begins_ci_def)
qed

lemma begins_ci_single:
  "begins_ci (drop i s) [p] \<longleftrightarrow> i < length s \<and> ci_match (s ! i) p"
proof (cases "i < length s")
  case True
  then have "take 1 (drop i s) = [s ! i]"
    by (simp add: take_Suc_conv_app_nth hd_drop_conv_nth take_Suc)
  with True show ?thesis by (auto simp: begins_ci_def)
next
  case False
  then show ?thesis by (simp add: begins_ci_def)
qed

lemma begins_ci_length: "begins_ci s w \<Longrightarrow> length w \<le> length s"
  by (simp add: begins_ci_def)

lemma matches_phrases:
  "bol_free r \<Longrightarrow> i \<le> length s \<Longrightarrow>
   e \<in> set (matches r s i) \<longleftrightarrow>
     (\<exists>w \<in> set (phrases r). e = i + length w \<and> begins_ci (drop i s) w)"
proof (induction r arbitrary: i e)
  case (Lit p)
  then show ?case by (auto simp: begins_ci_single)
next
  case Bol
  then show ?case by simp
next
  case Eps
  then show ?case by (simp add: begins_ci_Nil)
next
  case (Seq a b)
  have "e \<in> set (matches (Seq a b) s i) \<longleftrightarrow>
        (\<exists>m \<in> set (matches a s i). e \<in> set (matches b s m))"
    by auto
  also have "\<dots> \<longleftrightarrow>
        (\<exists>u \<in> set (phrases a). begins_ci (drop i s) u \<and>
           e \<in> set (matches b s (i + length u)))"
    using Seq.IH(1) [of i] Seq.prems by auto
  also have "\<dots> \<longleftrightarrow>
        (\<exists>u \<in> set (phrases a). begins_ci (drop i s) u \<and>
           (\<exists>v \<in> set (phrases b). e = i + length u + length v \<and>
              begins_ci (drop (i + length u) s) v))"
  proof -
    have "e \<in> set (matches b s (i + length u)) \<longleftrightarrow>
          (\<exists>v \<in> set (phrases b). e = i + length u + length v \<and>
              begins_ci (drop (i + length u) s) v)"
      if "begins_ci (drop i s) u" for u
    proof -
      from that have "length u \<le> length s - i" using begins_ci_length by fastforce
      with Seq.prems have "i + length u \<le> length s" by simp
      with Seq.IH(2) [of "i + length u" e] Seq.prems show ?thesis by simp
    qed
    then show ?thesis by blast
  qed
  also have "\<dots> \<longleftrightarrow>
        (\<exists>u \<in> set (phrases a). \<exists>v \<in> set (phrases b).
           e = i + length (u @ v) \<and> begins_ci (drop i s) (u @ v))"
    by (simp add: begins_ci_append ac_simps)
  also have "\<dots> \<longleftrightarrow>
        (\<exists>w \<in> set (phrases (Seq a b)). e = i + length w \<and> begins_ci (drop i s) w)"
    by (simp only: phrases.simps set_concat set_map bex_UN bex_simps image_iff)
  finally show ?case .
next
  case (Alt a b)
  then show ?case by auto
next
  case (Opt a)
  then show ?case by (auto simp: begins_ci_Nil)
qed

lemma bol_free_literal: "bol_free (literal w)"
  by (induction w) auto

lemma bol_free_one_of: "bol_free (one_of ws)"
  by (induction ws rule: one_of.induct) (auto simp: bol_free_literal)

lemma commands_bol_free: "(pattern, func) \<in> set commands \<Longrightarrow> bol_free pattern"
  by (auto simp: commands_def bol_free_literal bol_free_one_of)

lemma phrases_prefix: "phrases prefix = [py ''pk;'', py ''pk!'']"
  by (simp add: prefix_def py_def)

lemma matches_prefix:
  "matches (Seq prefix r) s 0 =
     matches (Seq (Seq (literal (py ''pk'')) (one_of [py '';'', py ''!''])) r) s 0"
  by (simp add: prefix_def)

lemma re_match_None_iff: "re_match r s = None \<longleftrightarrow> matches r s 0 = []"
  by (simp add: re_match_def split: list.splits)

lemma nonempty_iff: "xs \<noteq> [] \<longleftrightarrow> (\<exists>e. e \<in> set xs)"
  by (cases xs) auto

lemma re_match_iff:
  assumes "bol_free r"
  shows "re_match (Seq prefix r) s \<noteq> None \<longleftrightarrow> (\<exists>w \<in> set (invocations r). begins_ci s w)"
proof -
  define p where "p = Seq (Seq (literal (py ''pk'')) (one_of [py '';'', py ''!''])) r"
  define M where "M = matches p s 0"
  have bf: "bol_free p"
    using assms unfolding p_def
    by (simp add: bol_free_literal bol_free_one_of del: one_of.simps literal.simps)
  have ph: "phrases p = invocations r"
    unfolding p_def by (simp add: invocations_def py_def)
  have mp: "e \<in> set M \<longleftrightarrow> (\<exists>w \<in> set (invocations r). e = length w \<and> begins_ci s w)" for e
    using matches_phrases [OF bf, of 0 s e] unfolding M_def ph by simp
  have "re_match (Seq prefix r) s \<noteq> None \<longleftrightarrow> M \<noteq> []"
    unfolding M_def p_def by (simp only: re_match_None_iff matches_prefix)
  also have "\<dots> \<longleftrightarrow> (\<exists>e. e \<in> set M)"
    by (rule nonempty_iff)
  also have "\<dots> \<longleftrightarrow> (\<exists>w \<in> set (invocations r). begins_ci s w)"
    unfolding mp by blast
  finally show ?thesis .
qed


section \<open>Facts about the router\<close>

lemma begins_ci_Cons:
  "begins_ci (c # s) (p # w) \<longleftrightarrow> ci_match c p \<and> begins_ci s w"
  by (auto simp: begins_ci_def)

lemma begins_ci_Nil_Cons: "\<not> begins_ci [] (p # w)"
  by (simp add: begins_ci_def)


lemma dispatch_loop_none:
  "\<forall>c \<in> set cmds. re_match (Seq prefix (fst c)) (content msg) = None \<Longrightarrow>
   dispatch_loop env handlers msg cmds = ([], Inr False)"
  by (induction cmds) auto





lemma no_invocation_in_chat:
  "\<forall>(pattern, func) \<in> set commands. \<forall>w \<in> set (invocations pattern).
     \<not> begins_ci (py ''hello pk;system'') w"
  by (simp add: commands_def invocations_def py_def begins_ci_Cons begins_ci_Nil_Cons
      ci_match_def ascii_lower_def)

section \<open>The tokenizer contract\<close>

text \<open>
  C2, as stated: \<open>next_arg\<close> is the tokenizer of the specification, whose unquoted token
  is the untrimmed text up to the first space. It is not: on \<^verbatim>\<open>"a\t b"\<close> the code
  returns the token \<^verbatim>\<open>"a"\<close>, the contract \<^verbatim>\<open>"a\t"\<close>.
\<close>

theorem next_arg_token_is_trimmed:
  "next_arg (py ''a'' @ [9, SPACE] @ py ''b'') = (py ''a'', Some (py ''b'')) \<and>
   nextToken (py ''a'' @ [9, SPACE] @ py ''b'') = (py ''a'' @ [9], Some (py ''b''))"
  by (simp add: next_arg_cases nextToken_def py_def startswith_def strip_def isspace_def)

text \<open>
  C2, amended: for every input, a string that starts with a quote yields the text between
  that quote and the next one and the trimmed text after it, or everything after the quote
  and no remainder when there is no second quote; any other string yields the trimmed text
  up to the first space and the trimmed text from that space on, or the whole trimmed
  string and no remainder when it has no space; the empty string yields the empty token
  and no remainder.
\<close>

theorem next_arg_contract:
  "next_arg s =
     (if startswith s [QUOTE] then
        (if QUOTE \<in> set (tl s) then
           (takeWhile (\<lambda>c. c \<noteq> QUOTE) (tl s),
            Some (strip (tl (dropWhile (\<lambda>c. c \<noteq> QUOTE) (tl s)))))
         else (tl s, None))
      else if SPACE \<in> set s then
        (strip (takeWhile (\<lambda>c. c \<noteq> SPACE) s), Some (strip (dropWhile (\<lambda>c. c \<noteq> SPACE) s)))
      else (strip s, None)) \<and>
   next_arg [] = ([], None)"
proof
  show "next_arg s =
     (if startswith s [QUOTE] then
        (if QUOTE \<in> set (tl s) then
           (takeWhile (\<lambda>c. c \<noteq> QUOTE) (tl s),
            Some (strip (tl (dropWhile (\<lambda>c. c \<noteq> QUOTE) (tl s)))))
         else (tl s, None))
      else if SPACE \<in> set s then
        (strip (takeWhile (\<lambda>c. c \<noteq> SPACE) s), Some (strip (dropWhile (\<lambda>c. c \<noteq> SPACE) s)))
      else (strip s, None))"
    by (rule next_arg_cases)
  show "next_arg [] = ([], None)"
    by (simp add: next_arg_cases startswith_def strip_def)
qed

section \<open>The argument cursor\<close>

text \<open>
  C5, as stated: on an empty cursor and with no error passed, \<open>pop_str\<close> yields an empty
  token. It does not: the empty token is the empty string, as the tokenizer returns for an
  empty input, and \<open>pop_str\<close> returns \<^verbatim>\<open>None\<close>, which \<^verbatim>\<open>format\<close> prints as
  \<^verbatim>\<open>None\<close> and not as nothing.
\<close>

theorem pop_str_returns_none_not_empty:
  "pop_str None (example_context []) = (Inr None, example_context []) \<and>
   fst (pop_str None (example_context [])) \<noteq> Inr (Some []) \<and>
   fst (next_arg []) = [] \<and>
   format_arg None = py ''None'' \<and> format_arg (Some []) = []"
  by (simp add: pop_str_def has_next_def example_context_def next_arg_cases startswith_def
      strip_def format_arg_def)

text \<open>
  C5, amended: when the cursor's remaining text is empty (the empty string, or \<^verbatim>\<open>None\<close>
  after the tokenizer returned no remainder), \<open>pop_str\<close> raises the error passed to it
  exactly when one is passed, and without one it returns \<^verbatim>\<open>None\<close>, the absent value and
  not an empty string, and does not raise; the context is the same afterwards in both
  cases.
\<close>

theorem pop_str_on_empty_cursor:
  assumes "args ctx = Some [] \<or> args ctx = None"
  shows "pop_str (Some e) ctx = (Inl e, ctx) \<and> pop_str None ctx = (Inr None, ctx)"
  using assms by (auto simp: pop_str_def has_next_def)

theorem pop_str_on_empty_cursor_witness:
  "(args (example_context []) = Some [] \<or> args (example_context []) = None) \<and>
   pop_str (Some timed_out) (example_context []) = (Inl timed_out, example_context []) \<and>
   pop_str None (example_context []) = (Inr None, example_context [])"
proof -
  have h: "args (example_context []) = Some [] \<or> args (example_context []) = None"
    by (simp add: example_context_def)
  from pop_str_on_empty_cursor [OF h, of timed_out] h show ?thesis by simp
qed

text \<open>
  C7, as stated: after a pop the remaining text never contains the popped token. It can:
  popping from \<^verbatim>\<open>"a a"\<close> returns \<^verbatim>\<open>"a"\<close> and leaves \<^verbatim>\<open>"a"\<close>.
\<close>

theorem popped_token_may_remain:
  "pop_str None (example_context (py ''a a'')) =
     (Inr (Some (py ''a'')), (example_context (py ''a a''))\<lparr>args := Some (py ''a'')\<rparr>) \<and>
   contains (py ''a'') (py ''a'')"
  by (simp add: pop_str_def has_next_def example_context_def next_arg_cases py_def
      startswith_def strip_def isspace_def)

text \<open>
  C7, amended: after any pop the remaining text, when there is one, has no leading
  whitespace. A pop on a non-empty cursor returns a token that is a piece of the old text;
  the new remaining text is the trimmed rest of the old text after that piece and at least
  one more character (the closing quote, or the space), or is absent. \<open>pop_system\<close> and
  \<open>pop_member\<close> leave the cursor as \<open>pop_str\<close> does.
\<close>

theorem pop_cursor:
  "(case args (snd (pop_str error ctx)) of
      None \<Rightarrow> True
    | Some rest \<Rightarrow> rest = [] \<or> \<not> isspace (hd rest)) \<and>
   (\<forall>s. args ctx = Some s \<longrightarrow> s \<noteq> [] \<longrightarrow>
      (\<exists>tok. fst (pop_str error ctx) = Inr (Some tok) \<and>
         (case args (snd (pop_str error ctx)) of
            None \<Rightarrow> \<exists>a b. s = a @ tok @ b
          | Some rest \<Rightarrow> \<exists>a b c. s = a @ tok @ b @ c \<and> b \<noteq> [] \<and> rest = strip c))) \<and>
   snd (snd (pop_system sfuzzy error ctx)) = snd (pop_str error ctx) \<and>
   snd (snd (pop_member db (mfuzzy :: int option \<Rightarrow> pystr option \<Rightarrow> bool \<Rightarrow> 'member option)
     error system_only ctx)) = snd (pop_str error ctx)"
proof (intro conjI allI impI)
  show "case args (snd (pop_str error ctx)) of
      None \<Rightarrow> True
    | Some rest \<Rightarrow> rest = [] \<or> \<not> isspace (hd rest)"
  proof (cases "has_next ctx")
    case False
    then have "snd (pop_str error ctx) = ctx"
      by (simp add: pop_str_empty split: option.splits)
    with False show ?thesis by (simp add: has_next_def split: option.splits)
  next
    case True
    then obtain s where s: "args ctx = Some s" "s \<noteq> []"
      by (auto simp: has_next_def split: option.splits)
    show ?thesis
    proof (cases "snd (next_arg s)")
      case None
      then show ?thesis by (simp add: pop_str_nonempty [OF s])
    next
      case (Some rest)
      then have "next_arg s = (fst (next_arg s), Some rest)" by (metis prod.collapse)
      from next_arg_remainder [OF this] Some show ?thesis
        by (simp add: pop_str_nonempty [OF s])
    qed
  qed
next
  fix s
  assume s: "args ctx = Some s" "s \<noteq> []"
  show "\<exists>tok. fst (pop_str error ctx) = Inr (Some tok) \<and>
         (case args (snd (pop_str error ctx)) of
            None \<Rightarrow> \<exists>a b. s = a @ tok @ b
          | Some rest \<Rightarrow> \<exists>a b c. s = a @ tok @ b @ c \<and> b \<noteq> [] \<and> rest = strip c)"
  proof (cases "snd (next_arg s)")
    case None
    then have "next_arg s = (fst (next_arg s), None)" by (metis prod.collapse)
    from next_arg_no_remainder [OF this] None show ?thesis
      by (simp add: pop_str_nonempty [OF s])
  next
    case (Some rest)
    then have "next_arg s = (fst (next_arg s), Some rest)" by (metis prod.collapse)
    from next_arg_remainder [OF this] Some show ?thesis
      by (simp add: pop_str_nonempty [OF s])
  qed
next
  show "snd (snd (pop_system sfuzzy error ctx)) = snd (pop_str error ctx)"
    by (rule pop_system_cursor)
next
  show "snd (snd (pop_member db mfuzzy error system_only ctx)) = snd (pop_str error ctx)"
    by (rule pop_member_cursor)
qed

theorem pop_cursor_witness:
  "args (example_context (py ''a b'')) = Some (py ''a b'') \<and> py ''a b'' \<noteq> [] \<and>
   fst (pop_str None (example_context (py ''a b''))) = Inr (Some (py ''a'')) \<and>
   args (snd (pop_str None (example_context (py ''a b'')))) = Some (py ''b'') \<and>
   (\<exists>a b c. py ''a b'' = a @ py ''a'' @ b @ c \<and> b \<noteq> [] \<and> py ''b'' = strip c)"
proof -
  let ?ctx = "example_context (py ''a b'')"
  have h: "args ?ctx = Some (py ''a b'')" "py ''a b'' \<noteq> []"
    by (simp_all add: example_context_def py_def)
  have p: "pop_str None ?ctx = (Inr (Some (py ''a'')), ?ctx\<lparr>args := Some (py ''b'')\<rparr>)"
    by (simp add: pop_str_def has_next_def example_context_def next_arg_cases py_def
        startswith_def strip_def isspace_def)
  from pop_cursor [of None ?ctx "\<lambda>n. None" "\<lambda>a. None" "\<lambda>i n b. (None :: unit option)" True] h
  obtain tok where "fst (pop_str None ?ctx) = Inr (Some tok)"
    and "case args (snd (pop_str None ?ctx)) of
            None \<Rightarrow> \<exists>a b. py ''a b'' = a @ tok @ b
          | Some rest \<Rightarrow> \<exists>a b c. py ''a b'' = a @ tok @ b @ c \<and> b \<noteq> [] \<and> rest = strip c"
    by blast
  with p have "\<exists>a b c. py ''a b'' = a @ py ''a'' @ b @ c \<and> b \<noteq> [] \<and> py ''b'' = strip c"
    by simp
  with h p show ?thesis by simp
qed

section \<open>The invoking account's system\<close>

text \<open>
  C4, as stated: the system is fetched at most once per context and later calls return the
  cached value. The context has no cache: two calls make two fetches, and the second
  returns what the database holds then.
\<close>

theorem system_fetched_on_every_call:
  "map is_fetch
     (fst (get_system (\<lambda>a. Some \<lparr>system_id = 1\<rparr>) (example_context [])) @
      fst (get_system (\<lambda>a. None) (example_context []))) = [True, True] \<and>
   snd (get_system (\<lambda>a. Some \<lparr>system_id = 1\<rparr>) (example_context [])) = Some \<lparr>system_id = 1\<rparr> \<and>
   snd (get_system (\<lambda>a. None) (example_context [])) = None"
  by (simp add: get_system_def)

text \<open>
  C4, amended: every call of \<open>get_system\<close> and of \<open>ensure_system\<close> makes one fetch
  for the author of the message and returns what the database answers at that time,
  \<open>ensure_system\<close> raising the registration error when there is no system; two calls
  make two fetches.
\<close>

theorem system_lookup_fetches:
  "get_system db ctx =
     ([Db_get_system_by_account (user_id (author (message ctx)))],
      db (user_id (author (message ctx)))) \<and>
   ensure_system db ctx =
     ([Db_get_system_by_account (user_id (author (message ctx)))],
      (case db (user_id (author (message ctx))) of
         None \<Rightarrow>
           Inl (CommandError
             (py ''No system registered to this account. Use '' @ [96] @ py ''pk;system new'' @
              [96] @ py '' to register one.'') None)
       | Some sys \<Rightarrow> Inr sys)) \<and>
   length (filter is_fetch (fst (get_system db ctx) @ fst (ensure_system db' ctx))) = 2"
  by (simp add: get_system_def ensure_system_def no_system_error_def split: option.splits)

section \<open>Confirmation\<close>

text \<open>
  C6: both protocols wait with a timeout of 300 seconds; when the wait returns nothing they
  raise \<^verbatim>\<open>CommandError("Timed out - try again.")\<close>; a reaction confirms exactly when its
  emoji is the check mark, and a message confirms exactly when its content equals the
  expected string.
\<close>

theorem confirmation_protocols:
  "confirm_react None ctx usr prompt =
     ([reply ctx (Some prompt) None, Add_reaction [CHECK_MARK], Add_reaction [CROSS_MARK],
       Wait_for_reaction [[CHECK_MARK], [CROSS_MARK]] usr 300],
      Inl (CommandError (py ''Timed out - try again.'') None)) \<and>
   confirm_react (Some emoji) ctx usr prompt =
     ([reply ctx (Some prompt) None, Add_reaction [CHECK_MARK], Add_reaction [CROSS_MARK],
       Wait_for_reaction [[CHECK_MARK], [CROSS_MARK]] usr 300],
      Inr (emoji = [CHECK_MARK])) \<and>
   confirm_text None ctx usr chan expected prompt =
     ([reply ctx (Some prompt) None, Wait_for_message chan usr 300],
      Inl (CommandError (py ''Timed out - try again.'') None)) \<and>
   confirm_text (Some m) ctx usr chan expected prompt =
     ([reply ctx (Some prompt) None, Wait_for_message chan usr 300],
      Inr (content m = expected))"
  by (simp add: confirm_react_def confirm_text_def timed_out_def)

section \<open>The error boundary\<close>

text \<open>
  C3: a \<^verbatim>\<open>CommandError\<close> raised by the handler leaves \<open>run_command\<close> as one reply, the
  error embed with its text and help reference, and nothing is raised further. Any other
  exception is logged: the dispatcher adds no reply, and when \<^verbatim>\<open>LOG_CHANNEL\<close> names a
  channel it sends that channel the stack trace with an embed whose title is the message
  content and whose footer names the sender, the server or \<^verbatim>\<open>(DMs)\<close>, and the channel.
\<close>

theorem error_boundary:
  "(\<forall>e. func ctx = (acts, Raised (Command_error_raised e)) \<longrightarrow>
      run_command env ctx func =
        (acts @
         [Send_message (Message_channel (channel (message ctx))) None
            (Some (new_embed (Embeds_error ([CROSS_MARK, SPACE] @ error_text e) (error_help e))))],
         None)) \<and>
   (\<forall>x. func ctx = (acts, Raised (Other_exception x)) \<longrightarrow>
      (\<exists>logged.
         fst (run_command env ctx func) =
           acts @ [Logger_exception (py ''Exception while dispatching command'')] @ logged \<and>
         filter is_reply logged = [] \<and>
         (\<forall>channel_id. LOG_CHANNEL env = Some channel_id \<longrightarrow> channel_id \<noteq> [] \<longrightarrow>
            snd (run_command env ctx func) = None \<and>
            logged =
              [Send_message (Get_channel channel_id)
                 (Some ([96, 96, 96] @ py ''python'' @ [10] @
                        format_exc env (Other_exception x) @ [96, 96, 96]))
                 (Some \<lparr>base = Discord_Embed,
                        title = Some (content (message ctx)),
                        description = None,
                        colour = Some Dark_red,
                        footer = Some
                          (py ''Sender: '' @ user_name (author (message ctx)) @ py ''#'' @
                           discriminator (author (message ctx)) @ py '' | Server: '' @
                           (case server (message ctx) of
                              Some sid \<Rightarrow> sid
                            | None \<Rightarrow> py ''(DMs)'') @
                           py '' | Channel: '' @ channel (message ctx)),
                        embed_fields = []\<rparr>)])))"
proof (intro conjI allI impI)
  fix e
  assume "func ctx = (acts, Raised (Command_error_raised e))"
  then show "run_command env ctx func =
        (acts @
         [Send_message (Message_channel (channel (message ctx))) None
            (Some (new_embed (Embeds_error ([CROSS_MARK, SPACE] @ error_text e) (error_help e))))],
         None)"
    by (simp add: run_command_raised_error reply_def)
next
  fix x
  assume r: "func ctx = (acts, Raised (Other_exception x))"
  let ?logged = "fst (log_error_in_channel env ctx (Other_exception x))"
  have "fst (run_command env ctx func) =
           acts @ [Logger_exception (py ''Exception while dispatching command'')] @ ?logged"
    using r by (simp add: run_command_other)
  moreover have "filter is_reply ?logged = []"
    by (rule log_error_no_reply)
  moreover have "\<forall>channel_id. LOG_CHANNEL env = Some channel_id \<longrightarrow> channel_id \<noteq> [] \<longrightarrow>
            snd (run_command env ctx func) = None \<and>
            ?logged =
              [Send_message (Get_channel channel_id)
                 (Some ([96, 96, 96] @ py ''python'' @ [10] @
                        format_exc env (Other_exception x) @ [96, 96, 96]))
                 (Some \<lparr>base = Discord_Embed,
                        title = Some (content (message ctx)),
                        description = None,
                        colour = Some Dark_red,
                        footer = Some
                          (py ''Sender: '' @ user_name (author (message ctx)) @ py ''#'' @
                           discriminator (author (message ctx)) @ py '' | Server: '' @
                           (case server (message ctx) of
                              Some sid \<Rightarrow> sid
                            | None \<Rightarrow> py ''(DMs)'') @
                           py '' | Channel: '' @ channel (message ctx)),
                        embed_fields = []\<rparr>)]"
    using r by (simp add: run_command_other log_error_in_channel_def log_embed_def
        log_footer_def new_embed_def)
  ultimately show "\<exists>logged.
         fst (run_command env ctx func) =
           acts @ [Logger_exception (py ''Exception while dispatching command'')] @ logged \<and>
         filter is_reply logged = [] \<and>
         (\<forall>channel_id. LOG_CHANNEL env = Some channel_id \<longrightarrow> channel_id \<noteq> [] \<longrightarrow>
            snd (run_command env ctx func) = None \<and>
            logged =
              [Send_message (Get_channel channel_id)
                 (Some ([96, 96, 96] @ py ''python'' @ [10] @
                        format_exc env (Other_exception x) @ [96, 96, 96]))
                 (Some \<lparr>base = Discord_Embed,
                        title = Some (content (message ctx)),
                        description = None,
                        colour = Some Dark_red,
                        footer = Some
                          (py ''Sender: '' @ user_name (author (message ctx)) @ py ''#'' @
                           discriminator (author (message ctx)) @ py '' | Server: '' @
                           (case server (message ctx) of
                              Some sid \<Rightarrow> sid
                            | None \<Rightarrow> py ''(DMs)'') @
                           py '' | Channel: '' @ channel (message ctx)),
                        embed_fields = []\<rparr>)])"
    by blast
qed

theorem error_boundary_witness:
  "LOG_CHANNEL \<lparr>LOG_CHANNEL = Some (py ''3''), format_exc = (\<lambda>x. py ''Traceback'')\<rparr> = Some (py ''3'') \<and>
   py ''3'' \<noteq> [] \<and>
   run_command \<lparr>LOG_CHANNEL = Some (py ''3''), format_exc = (\<lambda>x. py ''Traceback'')\<rparr>
     (example_context [])
     (\<lambda>ctx. ([], Raised (Other_exception (py ''ValueError'')))) =
     ([Logger_exception (py ''Exception while dispatching command''),
       Send_message (Get_channel (py ''3''))
         (Some ([96, 96, 96] @ py ''python'' @ [10] @ py ''Traceback'' @ [96, 96, 96]))
         (Some \<lparr>base = Discord_Embed,
                title = Some (py ''pk;help''),
                description = None,
                colour = Some Dark_red,
                footer = Some (py ''Sender: Ske#6201 | Server: (DMs) | Channel: 2''),
                embed_fields = []\<rparr>)],
      None)"
proof -
  let ?env = "\<lparr>LOG_CHANNEL = Some (py ''3''), format_exc = (\<lambda>x. py ''Traceback'')\<rparr>"
  let ?ctx = "example_context []"
  let ?f = "\<lambda>ctx :: command_context. ([] :: action list, Raised (Other_exception (py ''ValueError'')))"
  have l: "LOG_CHANNEL ?env = Some (py ''3'')" "py ''3'' \<noteq> []"
    by (simp_all add: py_def)
  have f: "?f ?ctx = ([], Raised (Other_exception (py ''ValueError'')))" by simp
  from error_boundary [of ?f ?ctx "[]" ?env] f l
  obtain logged where
    a: "fst (run_command ?env ?ctx ?f) =
          [] @ [Logger_exception (py ''Exception while dispatching command'')] @ logged"
    and b: "snd (run_command ?env ?ctx ?f) = None"
    and c: "logged =
              [Send_message (Get_channel (py ''3''))
                 (Some ([96, 96, 96] @ py ''python'' @ [10] @
                        format_exc ?env (Other_exception (py ''ValueError'')) @ [96, 96, 96]))
                 (Some \<lparr>base = Discord_Embed,
                        title = Some (content (message ?ctx)),
                        description = None,
                        colour = Some Dark_red,
                        footer = Some
                          (py ''Sender: '' @ user_name (author (message ?ctx)) @ py ''#'' @
                           discriminator (author (message ?ctx)) @ py '' | Server: '' @
                           (case server (message ?ctx) of
                              Some sid \<Rightarrow> sid
                            | None \<Rightarrow> py ''(DMs)'') @
                           py '' | Channel: '' @ channel (message ?ctx)),
                        embed_fields = []\<rparr>)]"
    by blast
  have "run_command ?env ?ctx ?f = (fst (run_command ?env ?ctx ?f), snd (run_command ?env ?ctx ?f))"
    by simp
  also have "\<dots> =
     ([Logger_exception (py ''Exception while dispatching command''),
       Send_message (Get_channel (py ''3''))
         (Some ([96, 96, 96] @ py ''python'' @ [10] @ py ''Traceback'' @ [96, 96, 96]))
         (Some \<lparr>base = Discord_Embed,
                title = Some (py ''pk;help''),
                description = None,
                colour = Some Dark_red,
                footer = Some (py ''Sender: Ske#6201 | Server: (DMs) | Channel: 2''),
                embed_fields = []\<rparr>)],
      None)"
    unfolding a b c by (simp add: example_context_def example_message_def example_user_def py_def)
  finally show ?thesis using l by simp
qed

text \<open>
  C9: a \<^verbatim>\<open>CommandError\<close> that a handler returns is sent to the user as the same error
  embed, with the cross mark, as one it raises, and \<open>run_command\<close> ends the same way in
  both cases. \<open>show_help\<close> returns one for a category that is not a help page, and
  \<open>message_info\<close> returns one when \<^verbatim>\<open>int\<close> rejects the token.
\<close>

theorem returned_error_is_rendered:
  "(\<forall>acts e. func ctx = (acts, Returned (Response (CommandError_value e))) \<longrightarrow>
      run_command env ctx func =
        (acts @
         [Send_message (Message_channel (channel (message ctx))) None
            (Some (new_embed (Embeds_error ([CROSS_MARK, SPACE] @ error_text e) (error_help e))))],
         None) \<and>
      (\<forall>raising. raising ctx = (acts, Raised (Command_error_raised e)) \<longrightarrow>
         run_command env ctx raising = run_command env ctx func)) \<and>
   (\<not> has_next ctx \<longrightarrow> help_pages None = None \<longrightarrow>
      show_help help_pages ctx =
        ([], Returned (Response (CommandError_value (CommandError
           (py ''Unknown help page '' @ [39] @ py ''None'' @ [39] @ py ''.'') None))))) \<and>
   (\<forall>s. args ctx = Some s \<longrightarrow> s \<noteq> [] \<longrightarrow> help_pages (Some (fst (next_arg s))) = None \<longrightarrow>
      show_help help_pages ctx =
        ([], Returned (Response (CommandError_value (CommandError
           (py ''Unknown help page '' @ [39] @ fst (next_arg s) @ [39] @ py ''.'') None))))) \<and>
   (\<forall>s. args ctx = Some s \<longrightarrow> s \<noteq> [] \<longrightarrow> py_int (fst (next_arg s)) = None \<longrightarrow>
      message_info message_lookup py_int lookup ctx =
        ([], Returned (Response (CommandError_value (CommandError
           (py ''You must pass a valid number as a message ID.'') (Some message_lookup))))))"
proof (intro conjI allI impI)
  fix acts e
  assume "func ctx = (acts, Returned (Response (CommandError_value e)))"
  then show "run_command env ctx func =
        (acts @
         [Send_message (Message_channel (channel (message ctx))) None
            (Some (new_embed (Embeds_error ([CROSS_MARK, SPACE] @ error_text e) (error_help e))))],
         None)"
    by (simp add: run_command_returned_error reply_def)
next
  fix acts e raising
  assume "func ctx = (acts, Returned (Response (CommandError_value e)))"
    and "raising ctx = (acts, Raised (Command_error_raised e))"
  then show "run_command env ctx raising = run_command env ctx func"
    by (simp add: run_command_returned_error run_command_raised_error)
next
  assume "\<not> has_next ctx" and "help_pages None = None"
  then show "show_help help_pages ctx =
        ([], Returned (Response (CommandError_value (CommandError
           (py ''Unknown help page '' @ [39] @ py ''None'' @ [39] @ py ''.'') None))))"
    by (simp add: show_help_def format_arg_def)
next
  fix s
  assume s: "args ctx = Some s" "s \<noteq> []" and h: "help_pages (Some (fst (next_arg s))) = None"
  from s have "has_next ctx" by (simp add: has_next_def)
  with h show "show_help help_pages ctx =
        ([], Returned (Response (CommandError_value (CommandError
           (py ''Unknown help page '' @ [39] @ fst (next_arg s) @ [39] @ py ''.'') None))))"
    by (simp add: show_help_def pop_str_nonempty [OF s] format_arg_def)
next
  fix s
  assume s: "args ctx = Some s" "s \<noteq> []" and h: "py_int (fst (next_arg s)) = None"
  then show "message_info message_lookup py_int lookup ctx =
        ([], Returned (Response (CommandError_value (CommandError
           (py ''You must pass a valid number as a message ID.'') (Some message_lookup)))))"
    by (simp add: message_info_def pop_str_nonempty [OF s])
qed

theorem returned_error_is_rendered_witness:
  "args (example_context (py ''nonsense'')) = Some (py ''nonsense'') \<and>
   py ''nonsense'' \<noteq> [] \<and>
   Map.empty (Some (fst (next_arg (py ''nonsense'')))) = (None :: (pystr option \<times> pystr) list option) \<and>
   (\<forall>env.
      run_command env (example_context (py ''nonsense'')) (show_help Map.empty) =
        ([Send_message (Message_channel (py ''2'')) None
            (Some (new_embed (Embeds_error
               ([CROSS_MARK, SPACE] @ py ''Unknown help page '' @ [39] @ py ''nonsense'' @ [39] @ py ''.'')
               None)))],
         None))"
proof -
  let ?ctx = "example_context (py ''nonsense'')"
  let ?e = "CommandError (py ''Unknown help page '' @ [39] @ py ''nonsense'' @ [39] @ py ''.'') None"
  have a: "args ?ctx = Some (py ''nonsense'')" "py ''nonsense'' \<noteq> []"
    by (simp_all add: example_context_def py_def)
  have t: "fst (next_arg (py ''nonsense'')) = py ''nonsense''"
    by (simp add: next_arg_cases py_def startswith_def strip_def isspace_def)
  have ch: "channel (message ?ctx) = py ''2''"
    by (simp add: example_context_def example_message_def)
  have r: "show_help Map.empty ?ctx = ([], Returned (Response (CommandError_value ?e)))"
    using returned_error_is_rendered [of "show_help Map.empty" ?ctx _ Map.empty] a t by simp
  have "run_command env ?ctx (show_help Map.empty) =
        ([Send_message (Message_channel (py ''2'')) None
            (Some (new_embed (Embeds_error
               ([CROSS_MARK, SPACE] @ py ''Unknown help page '' @ [39] @ py ''nonsense'' @ [39] @ py ''.'')
               None)))],
         None)" for env
    using returned_error_is_rendered [of "show_help Map.empty" ?ctx env Map.empty] r ch
    by simp
  with a show ?thesis by simp
qed

section \<open>Routing\<close>



text \<open>
  C8: a message that does not begin, up to the case of its letters, with \<^verbatim>\<open>pk;\<close> or
  \<^verbatim>\<open>pk!\<close> and a phrase of a pattern of the table makes \<open>command_dispatch\<close> return
  \<^verbatim>\<open>False\<close> with no call to any collaborator: no reply, no handler, no log.
\<close>

theorem no_match_is_silent:
  assumes "\<forall>(pattern, func) \<in> set commands. \<forall>w \<in> set (invocations pattern).
             \<not> begins_ci (content msg) w"
  shows "command_dispatch env handlers msg = ([], Inr False)"
proof -
  have "\<forall>c \<in> set commands. re_match (Seq prefix (fst c)) (content msg) = None"
  proof
    fix c assume c: "c \<in> set commands"
    then have "bol_free (fst c)" using commands_bol_free [of "fst c" "snd c"] by simp
    from re_match_iff [OF this, of "content msg"] assms c
    show "re_match (Seq prefix (fst c)) (content msg) = None" by fastforce
  qed
  then show ?thesis unfolding command_dispatch_def by (rule dispatch_loop_none)
qed

theorem no_match_is_silent_witness:
  "(\<forall>env handlers.
      command_dispatch env handlers (example_message (py ''hello pk;system'')) = ([], Inr False))"
proof (intro allI)
  fix env handlers
  have "\<forall>(pattern, func) \<in> set commands. \<forall>w \<in> set (invocations pattern).
          \<not> begins_ci (content (example_message (py ''hello pk;system''))) w"
    using no_invocation_in_chat by (simp add: example_message_def)
  then show "command_dispatch env handlers (example_message (py ''hello pk;system'')) =
      ([], Inr False)"
    by (rule no_match_is_silent)
qed



end
